theory Spec2Isabelle
  imports Main
begin

section \<open>JavaScript values used by the scraper\<close>

text \<open>
  A thrown JavaScript error: the name of its class and its \<open>message\<close> property.
  Everything the source throws or re-throws is a value of this type, and fallible code
  returns \<open>js_error + 'a\<close> with \<open>Inl\<close> for a throw (a rejected promise).
\<close>

datatype js_error = JsError (err_name: string) (message: string)

section \<open>RetryPolicy: \<open>withRetry\<close> (index.ts, lines 191-206)\<close>

text \<open>
  What one call of \<open>withRetry\<close> did. \<open>outcome\<close> is the returned value (\<open>Inr\<close>) or the
  thrown error (\<open>Inl\<close>); \<open>final\<close> is the state the operation left behind.
  \<open>invocations\<close> counts the calls of \<open>operation()\<close>, \<open>waits\<close> lists the delay of each
  \<open>setTimeout\<close> and \<open>warnings\<close> the attempt number printed by each \<open>console.warn\<close>,
  oldest first; these three record the effects of the loop and do not steer it.
\<close>

record ('a, 's) retry_run =
  outcome :: "js_error + 'a"
  invocations :: nat
  waits :: "int list"
  warnings :: "int list"
  final :: 's

text \<open>
  The \<open>while (attempt < maxRetries)\<close> loop, entered with the current value of \<open>attempt\<close>.
  An operation is a state transformer that returns or throws. \<open>maxRetries\<close> and \<open>delay\<close>
  are integers (the source's callers pass none, so the defaults 3 and 1000 apply).
\<close>

function retry_loop ::
  "('s \<Rightarrow> (js_error + 'a) \<times> 's) \<Rightarrow> int \<Rightarrow> int \<Rightarrow> int \<Rightarrow> 's \<Rightarrow> ('a, 's) retry_run"
where
  "retry_loop operation maxRetries delay attempt s =
     (if attempt < maxRetries then
        (case fst (operation s) of
           Inr v \<Rightarrow>
             \<lparr>outcome = Inr v, invocations = 1, waits = [], warnings = [],
              final = snd (operation s)\<rparr>
         | Inl error \<Rightarrow>
             (if attempt + 1 = maxRetries then
                \<lparr>outcome = Inl error, invocations = 1, waits = [], warnings = [],
                 final = snd (operation s)\<rparr>
              else
                (let r = retry_loop operation maxRetries delay (attempt + 1)
                           (snd (operation s))
                 in r\<lparr>invocations := Suc (invocations r),
                      waits := delay # waits r,
                      warnings := (attempt + 1) # warnings r\<rparr>)))
      else
        \<lparr>outcome = Inl (JsError ''Error'' ''Max retries reached''), invocations = 0,
         waits = [], warnings = [], final = s\<rparr>)"
  by pat_completeness auto
termination
  by (relation "measure (\<lambda>(operation, maxRetries, delay, attempt, s). nat (maxRetries - attempt))")
     auto

declare retry_loop.simps [simp del]

definition withRetry ::
  "('s \<Rightarrow> (js_error + 'a) \<times> 's) \<Rightarrow> int \<Rightarrow> int \<Rightarrow> 's \<Rightarrow> ('a, 's) retry_run"
where
  "withRetry operation maxRetries delay s = retry_loop operation maxRetries delay 0 s"

text \<open>The state in which the invocation number \<open>k\<close> (counted from 0) of an operation starts.\<close>

definition state_before :: "('s \<Rightarrow> (js_error + 'a) \<times> 's) \<Rightarrow> nat \<Rightarrow> 's \<Rightarrow> 's" where
  "state_before operation k s = ((\<lambda>t. snd (operation t)) ^^ k) s"

section \<open>Objects, strings and the page\<close>

text \<open>
  A JavaScript object whose properties hold strings: the properties in insertion order.
  \<open>set_prop\<close> is an assignment \<open>o[k] = v\<close>: an existing key keeps its place and takes
  the new value, a new key goes to the end. \<open>spread src target\<close> is \<open>...src\<close> inside an
  object literal whose earlier properties are \<open>target\<close>.
\<close>

type_synonym jsobj = "(string \<times> string) list"

fun set_prop :: "string \<Rightarrow> string \<Rightarrow> jsobj \<Rightarrow> jsobj" where
  "set_prop k v [] = [(k, v)]"
| "set_prop k v (p # ps) = (if fst p = k then (k, v) # ps else p # set_prop k v ps)"

definition spread :: "jsobj \<Rightarrow> jsobj \<Rightarrow> jsobj" where
  "spread src target = fold (\<lambda>p. set_prop (fst p) (snd p)) src target"

definition get_prop :: "jsobj \<Rightarrow> string \<Rightarrow> string option" where
  "get_prop obj k = map_of obj k"

text \<open>
  A value that is a string or absent (\<open>undefined\<close> or \<open>null\<close>, both \<open>None\<close>).
  \<open>falsy\<close> is JavaScript's \<open>!x\<close> on it, \<open>or_empty\<close> is \<open>x || ''\<close> and \<open>js_string\<close> is
  the conversion that a template literal and \<open>encodeURIComponent\<close> apply.
\<close>

definition falsy :: "string option \<Rightarrow> bool" where
  "falsy x = (case x of None \<Rightarrow> True | Some s \<Rightarrow> s = [])"

definition or_empty :: "string option \<Rightarrow> string" where
  "or_empty x = (if falsy x then [] else (case x of None \<Rightarrow> [] | Some s \<Rightarrow> s))"

definition js_string :: "string option \<Rightarrow> string" where
  "js_string x = (case x of None \<Rightarrow> ''undefined'' | Some s \<Rightarrow> s)"

text \<open>
  \<open>String.prototype.trim\<close> on a byte string: the ASCII white space and line terminators
  (tab, line feed, vertical tab, form feed, carriage return, space). A string is the
  UTF-8 encoding of the JavaScript string; the white space beyond ASCII that \<open>trim\<close> also
  removes is not removed here.
\<close>

definition is_space :: "char \<Rightarrow> bool" where
  "is_space c = (c \<in> set [CHR 0x09, CHR 0x0A, CHR 0x0B, CHR 0x0C, CHR 0x0D, CHR 0x20])"

definition trim :: "string \<Rightarrow> string" where
  "trim s = rev (dropWhile is_space (rev (dropWhile is_space s)))"

text \<open>
  \<open>encodeURIComponent\<close> on the UTF-8 bytes of a string: letters, digits and
  \<open>- _ . ! ~ * ' ( )\<close> stay, every other byte becomes \<open>%\<close> and two upper-case hex digits.
\<close>

definition uri_unreserved :: "char \<Rightarrow> bool" where
  "uri_unreserved c =
     (c \<in> set (''ABCDEFGHIJKLMNOPQRSTUVWXYZabcdefghijklmnopqrstuvwxyz0123456789-_.!~*()''
               @ [CHR 0x27]))"

definition hex_digit :: "nat \<Rightarrow> char" where
  "hex_digit n = ''0123456789ABCDEF'' ! (n mod 16)"

definition percent_encode :: "char \<Rightarrow> string" where
  "percent_encode c =
     [CHR ''%'', hex_digit ((of_char c :: nat) div 16), hex_digit ((of_char c :: nat) mod 16)]"

definition encodeURIComponent :: "string \<Rightarrow> string" where
  "encodeURIComponent s =
     concat (map (\<lambda>c. if uri_unreserved c then [c] else percent_encode c) s)"

text \<open>
  The rendered page as the extractors see it. An element has its \<open>textContent\<close>, its
  \<open>href\<close> property (the resolved URL of a link), its attributes, and for each selector
  the first descendant that matches it (\<open>querySelector\<close>). A document gives, for each
  selector, the elements that match it in document order (\<open>querySelectorAll\<close>).
  The selectors are the strings of the source.
\<close>

datatype element =
  Element (textContent: string) (href: string) (attributes: "(string \<times> string) list")
    (descendants: "(string \<times> element) list")

type_synonym document = "(string \<times> element list) list"

definition querySelector :: "element \<Rightarrow> string \<Rightarrow> element option" where
  "querySelector el selector = map_of (descendants el) selector"

definition getAttribute :: "element \<Rightarrow> string \<Rightarrow> string option" where
  "getAttribute el name = map_of (attributes el) name"

definition querySelectorAll :: "document \<Rightarrow> string \<Rightarrow> element list" where
  "querySelectorAll doc selector = (case map_of doc selector of None \<Rightarrow> [] | Some els \<Rightarrow> els)"

section \<open>The four extractors (the callbacks of \<open>page.evaluate\<close>)\<close>

text \<open>performGoogleSearch, lines 69-78: the record built from one \<open>.tF2Cxc\<close> container.\<close>

definition google_item :: "element \<Rightarrow> jsobj" where
  "google_item el =
     (let titleEl = querySelector el ''.LC20lb'';
          urlEl = querySelector el ''.yuRUbf > a'';
          snippetEl = querySelector el ''.VwiCzo''
      in [(''title'', or_empty (map_option textContent titleEl)),
          (''url'', or_empty (map_option href urlEl)),
          (''snippet'', or_empty (map_option textContent snippetEl))])"

text \<open>
  performGoogleSearch, lines 68-80. The callback binds the mapped records to its local
  \<open>results\<close> and then returns \<open>searchResults\<close>. That name is bound neither in the
  callback nor in the page where the callback runs (and in the module it is the constant
  whose initialiser this very call is), so reading it throws a ReferenceError and
  \<open>page.evaluate\<close> rejects. The page is taken not to define a global of that name.
\<close>

definition google_extractor :: "document \<Rightarrow> js_error + jsobj list" where
  "google_extractor doc =
     (let results = map google_item (querySelectorAll doc ''.tF2Cxc'')
      in Inl (JsError ''ReferenceError'' ''searchResults is not defined''))"

text \<open>performDuckDuckGoSearch, lines 98-111.\<close>

definition duckduckgo_item :: "element \<Rightarrow> jsobj" where
  "duckduckgo_item el =
     (let titleEl = querySelector el ''a.result__a'';
          urlEl = querySelector el ''a.result__a'';
          snippetEl = querySelector el ''.result__snippet''
      in [(''title'', or_empty (map_option (\<lambda>e. trim (textContent e)) titleEl)),
          (''url'', or_empty (map_option href urlEl)),
          (''snippet'', or_empty (map_option (\<lambda>e. trim (textContent e)) snippetEl))])"

definition duckduckgo_extractor :: "document \<Rightarrow> jsobj list" where
  "duckduckgo_extractor doc =
     (let resultsSelector = ''.results_wrapper .web-results .result''
      in map duckduckgo_item (querySelectorAll doc resultsSelector))"

text \<open>performYouTubeSearch, lines 129-142.\<close>

definition youtube_item :: "element \<Rightarrow> jsobj" where
  "youtube_item el =
     (let titleEl = querySelector el ''#video-title'';
          url = (case querySelector el ''#video-title'' of
                   None \<Rightarrow> None
                 | Some e \<Rightarrow> getAttribute e ''href'');
          snippetEl = querySelector el ''#description-text''
      in [(''title'', or_empty (map_option (\<lambda>e. trim (textContent e)) titleEl)),
          (''url'', if falsy url then [] else ''https://www.youtube.com'' @ js_string url),
          (''snippet'', or_empty (map_option (\<lambda>e. trim (textContent e)) snippetEl))])"

definition youtube_extractor :: "document \<Rightarrow> jsobj list" where
  "youtube_extractor doc =
     (let resultsSelector = ''#contents ytd-item-section-renderer > div > ytd-video-renderer''
      in map youtube_item (querySelectorAll doc resultsSelector))"

text \<open>performPubMedSearch, lines 161-178.\<close>

definition pubmed_item :: "element \<Rightarrow> jsobj" where
  "pubmed_item el =
     (let titleEl = querySelector el ''.docsum-title'';
          linkEl = querySelector el ''.docsum-title > a'';
          authorsEl = querySelector el ''.docsum-authors'';
          journalEl = querySelector el ''.docsum-journal'';
          snippetEl = querySelector el ''.full-citation'';
          linkHref = (case linkEl of None \<Rightarrow> None | Some e \<Rightarrow> getAttribute e ''href'')
      in [(''title'', or_empty (map_option (\<lambda>e. trim (textContent e)) titleEl)),
          (''url'', if falsy linkHref then []
                    else ''https://pubmed.ncbi.nlm.nih.gov'' @ js_string linkHref),
          (''authors'', or_empty (map_option (\<lambda>e. trim (textContent e)) authorsEl)),
          (''journal'', or_empty (map_option (\<lambda>e. trim (textContent e)) journalEl)),
          (''snippet'', or_empty (map_option (\<lambda>e. trim (textContent e)) snippetEl))])"

definition pubmed_extractor :: "document \<Rightarrow> jsobj list" where
  "pubmed_extractor doc =
     (let elements = querySelectorAll doc ''.pubmed-citation-list > .pubmed-citation''
      in map pubmed_item elements)"

section \<open>The process: browser session, result store, clock\<close>

text \<open>
  What the process cannot decide is given from outside: what the \<open>k\<close>-th call of
  \<open>page.goto\<close> does with a URL (it throws, or the page then shows a document), what the
  \<open>k\<close>-th reading of the clock prints as an ISO string, what the \<open>k\<close>-th call of
  \<open>uuidv4\<close> returns, and whether the \<open>k\<close>-th \<open>fs.writeFile\<close> fails. Counting starts at 0.
\<close>

record env =
  goto_outcome :: "nat \<Rightarrow> string \<Rightarrow> js_error + document"
  now_ISO :: "nat \<Rightarrow> string"
  uuidv4 :: "nat \<Rightarrow> string"
  write_error :: "nat \<Rightarrow> js_error option"

text \<open>The body of a JSON response, which is also what is written to \<open>search_results.json\<close>.\<close>

datatype json_body =
  ErrorBody string
| FailureBody string string
| SnapshotBody string string string "jsobj list"

text \<open>The lines the source prints with \<open>console.error\<close> and \<open>console.log\<close>.\<close>

datatype log_line =
  NavigationFailed string js_error
| SearchFailed js_error
| WriteFailed js_error
| WriteSucceeded

text \<open>
  The module's variables and what the process has done so far: \<open>browser\<close> and \<open>page\<close>
  (set or not), the array \<open>results\<close>, the document the shared page shows, the URLs given
  to \<open>page.goto\<close>, how often the clock and \<open>uuidv4\<close> were used, the console, the
  \<open>console.warn\<close> lines and the elapsed timers of the retry loop, the number of
  \<open>fs.writeFile\<close> calls, the content of \<open>search_results.json\<close>, and the errors thrown
  out of a callback with nothing to catch them.
\<close>

record world =
  browser :: bool
  page :: bool
  results :: "jsobj list"
  shown :: document
  visited :: "string list"
  clock_reads :: nat
  uuid_draws :: nat
  console :: "log_line list"
  warned :: "int list"
  timers :: "int list"
  file_writes :: nat
  search_results_json :: "json_body option"
  uncaught :: "js_error list"

text \<open>ensureBrowser, lines 37-47. Launching the browser and opening a page do not fail here.\<close>

definition ensureBrowser :: "world \<Rightarrow> world" where
  "ensureBrowser w =
     (let w1 = (if \<not> browser w then w\<lparr>browser := True\<rparr> else w);
          w2 = (if \<not> page w1 then w1\<lparr>page := True\<rparr> else w1)
      in w2)"

text \<open>safePageNavigation, lines 50-57: on a failure it logs and throws the same error again.\<close>

definition safePageNavigation :: "env \<Rightarrow> string \<Rightarrow> world \<Rightarrow> (js_error + unit) \<times> world" where
  "safePageNavigation e url w =
     (let w1 = w\<lparr>visited := visited w @ [url]\<rparr>
      in case goto_outcome e (length (visited w)) url of
           Inr doc \<Rightarrow> (Inr (), w1\<lparr>shown := doc\<rparr>)
         | Inl error \<Rightarrow> (Inl error, w1\<lparr>console := console w1 @ [NavigationFailed url error]\<rparr>))"

text \<open>addResult, lines 60-62.\<close>

definition addResult :: "jsobj \<Rightarrow> world \<Rightarrow> world" where
  "addResult result w = w\<lparr>results := results w @ [result]\<rparr>"

text \<open>
  The object literal \<open>{ type: tag, ...result, timestamp: ts }\<close> and the body of the
  \<open>forEach\<close> loops (lines 82-88, 113-119, 144-150, 180-186), which reads the clock for
  each record and passes the new object to \<open>addResult\<close>.
\<close>

definition stamped :: "string \<Rightarrow> string \<Rightarrow> jsobj \<Rightarrow> jsobj" where
  "stamped tag ts result = set_prop ''timestamp'' ts (spread result [(''type'', tag)])"

definition add_stamped :: "env \<Rightarrow> string \<Rightarrow> jsobj \<Rightarrow> world \<Rightarrow> world" where
  "add_stamped e tag result w =
     addResult (stamped tag (now_ISO e (clock_reads w)) result)
       (w\<lparr>clock_reads := Suc (clock_reads w)\<rparr>)"

section \<open>The four pipelines\<close>

text \<open>performGoogleSearch, lines 65-91.\<close>

definition performGoogleSearch ::
  "env \<Rightarrow> string \<Rightarrow> world \<Rightarrow> (js_error + jsobj list) \<times> world"
where
  "performGoogleSearch e query w =
     (let w1 = ensureBrowser w;
          nav = safePageNavigation e
                  (''https://www.google.com/search?q='' @ encodeURIComponent query) w1
      in case fst nav of
           Inl error \<Rightarrow> (Inl error, snd nav)
         | Inr _ \<Rightarrow>
             (case google_extractor (shown (snd nav)) of
                Inl error \<Rightarrow> (Inl error, snd nav)
              | Inr searchResults \<Rightarrow>
                  (Inr searchResults, fold (add_stamped e ''google'') searchResults (snd nav))))"

text \<open>performDuckDuckGoSearch, lines 94-122.\<close>

definition performDuckDuckGoSearch ::
  "env \<Rightarrow> string \<Rightarrow> world \<Rightarrow> (js_error + jsobj list) \<times> world"
where
  "performDuckDuckGoSearch e query w =
     (let w1 = ensureBrowser w;
          nav = safePageNavigation e
                  (''https://duckduckgo.com/?q='' @ encodeURIComponent query) w1
      in case fst nav of
           Inl error \<Rightarrow> (Inl error, snd nav)
         | Inr _ \<Rightarrow>
             (let results = duckduckgo_extractor (shown (snd nav))
              in (Inr results, fold (add_stamped e ''duckduckgo'') results (snd nav))))"

text \<open>performYouTubeSearch, lines 125-152.\<close>

definition performYouTubeSearch ::
  "env \<Rightarrow> string \<Rightarrow> world \<Rightarrow> (js_error + jsobj list) \<times> world"
where
  "performYouTubeSearch e query w =
     (let w1 = ensureBrowser w;
          nav = safePageNavigation e
                  (''https://www.youtube.com/results?search_query='' @ encodeURIComponent query)
                  w1
      in case fst nav of
           Inl error \<Rightarrow> (Inl error, snd nav)
         | Inr _ \<Rightarrow>
             (let results = youtube_extractor (shown (snd nav))
              in (Inr results, fold (add_stamped e ''youtube'') results (snd nav))))"

text \<open>performPubMedSearch, lines 155-188.\<close>

definition specificSearchTerms :: string where
  \<open>specificSearchTerms =
     ''("Randomized controlled trial"[Publication Type] OR "Meta-Analysis"[Publication Type] OR "Review"[Publication Type])''\<close>

definition performPubMedSearch ::
  "env \<Rightarrow> string \<Rightarrow> world \<Rightarrow> (js_error + jsobj list) \<times> world"
where
  "performPubMedSearch e query w =
     (let w1 = ensureBrowser w;
          fullQuery = query @ '' AND '' @ specificSearchTerms;
          nav = safePageNavigation e
                  (''https://pubmed.ncbi.nlm.nih.gov/?term='' @ encodeURIComponent fullQuery) w1
      in case fst nav of
           Inl error \<Rightarrow> (Inl error, snd nav)
         | Inr _ \<Rightarrow>
             (let pubmedResults = pubmed_extractor (shown (snd nav))
              in (Inr pubmedResults, fold (add_stamped e ''pubmed'') pubmedResults (snd nav))))"

section \<open>RequestGateway: the HTTP endpoint (lines 289-354)\<close>

text \<open>
  The fields \<open>query\<close> and \<open>engine\<close> of the parsed JSON body, each a string or missing.
  Values of other JSON types are not modelled.
\<close>

record request_body =
  body_query :: "string option"
  body_engine :: "string option"

text \<open>
  Express's response object: the status code set so far, and what was sent to the client
  (status and body) once something was sent. \<open>res.json\<close> sends the body with the current
  status code; on a response that was already sent it throws (Node's
  \<open>ERR_HTTP_HEADERS_SENT\<close>) and the client keeps what it got.
\<close>

record response =
  statusCode :: nat
  sent :: "(nat \<times> json_body) option"

definition res_status :: "nat \<Rightarrow> response \<Rightarrow> response" where
  "res_status code res = res\<lparr>statusCode := code\<rparr>"

definition res_json :: "json_body \<Rightarrow> response \<Rightarrow> js_error option \<times> response" where
  "res_json body res =
     (case sent res of
        None \<Rightarrow> (None, res\<lparr>sent := Some (statusCode res, body)\<rparr>)
      | Some _ \<Rightarrow>
          (Some (JsError ''Error'' ''Cannot set headers after they are sent to the client''),
           res))"

text \<open>The \<open>switch (engine)\<close> of lines 300-315; \<open>None\<close> is the \<open>default\<close> case.\<close>

definition search_switch ::
  "env \<Rightarrow> string \<Rightarrow> string \<Rightarrow> world \<Rightarrow> ((js_error + jsobj list) \<times> world) option"
where
  "search_switch e engine query w =
     (if engine = ''google'' then Some (performGoogleSearch e query w)
      else if engine = ''duckduckgo'' then Some (performDuckDuckGoSearch e query w)
      else if engine = ''youtube'' then Some (performYouTubeSearch e query w)
      else if engine = ''pubmed'' then Some (performPubMedSearch e query w)
      else None)"

text \<open>
  The handler up to the end of its own body: the response, the data handed to
  \<open>fs.writeFile\<close> (if the handler got that far) and the process afterwards. The response
  is new for each request, so the one \<open>res.json\<close> on each path does not throw.
  \<open>fs.writeFile\<close> only starts the write; its callback runs after the handler has sent
  the response.
\<close>

definition search_handler ::
  "env \<Rightarrow> request_body \<Rightarrow> world \<Rightarrow> response \<times> json_body option \<times> world"
where
  "search_handler e body w =
     (let res = \<lparr>statusCode = 200, sent = None\<rparr>;
          query = body_query body;
          engine = body_engine body
      in if falsy query \<or> falsy engine then
           (snd (res_json (ErrorBody ''Query and engine are required'') (res_status 400 res)),
            None, w)
         else
           (let w0 = w\<lparr>results := []\<rparr>
            in case search_switch e (js_string engine) (js_string query) w0 of
                 None \<Rightarrow>
                   (snd (res_json (ErrorBody ''Invalid search engine'') (res_status 400 res)),
                    None, w0)
               | Some run \<Rightarrow>
                   (case fst run of
                      Inl error \<Rightarrow>
                        (snd (res_json (FailureBody ''Search failed'' (message error))
                                (res_status 500 res)),
                         None,
                         (snd run)\<lparr>console := console (snd run) @ [SearchFailed error]\<rparr>)
                    | Inr searchResults \<Rightarrow>
                        (let w1 = snd run;
                             responseId = uuidv4 e (uuid_draws w1);
                             w2 = w1\<lparr>uuid_draws := Suc (uuid_draws w1)\<rparr>;
                             data = SnapshotBody responseId (js_string query)
                                      (js_string engine) (results w2)
                         in (snd (res_json
                                    (SnapshotBody responseId (js_string query)
                                       (js_string engine) (results w2))
                                    res),
                             Some data, w2)))))"

text \<open>
  The callback of \<open>fs.writeFile\<close>, lines 335-341. With an error it logs and then calls
  \<open>res.status(500).json\<close>; what that throws is thrown out of the callback.
\<close>

definition writeFile_callback ::
  "js_error option \<Rightarrow> json_body \<Rightarrow> response \<Rightarrow> world \<Rightarrow> response \<times> world"
where
  "writeFile_callback err data res w =
     (case err of
        Some failure \<Rightarrow>
          (let w1 = w\<lparr>console := console w @ [WriteFailed failure]\<rparr>;
               reply = res_json (ErrorBody ''Failed to write search results to file'')
                         (res_status 500 res)
           in (snd reply,
               case fst reply of
                 None \<Rightarrow> w1
               | Some thrown \<Rightarrow> w1\<lparr>uncaught := uncaught w1 @ [thrown]\<rparr>))
      | None \<Rightarrow>
          (res, w\<lparr>console := console w @ [WriteSucceeded], search_results_json := Some data\<rparr>))"

text \<open>One request to \<open>POST /search\<close>: the handler, then the callback of the write it started.\<close>

definition post_search :: "env \<Rightarrow> request_body \<Rightarrow> world \<Rightarrow> response \<times> world" where
  "post_search e body w =
     (let h = search_handler e body w;
          res = fst h;
          w1 = snd (snd h)
      in case fst (snd h) of
           None \<Rightarrow> (res, w1)
         | Some data \<Rightarrow>
             writeFile_callback (write_error e (file_writes w1)) data res
               (w1\<lparr>file_writes := Suc (file_writes w1)\<rparr>))"

section \<open>RequestGateway: the tool-invocation handler (lines 209-282)\<close>

text \<open>
  The handler is the function given to \<open>server.setRequestHandler\<close>; the source does not
  declare \<open>server\<close>, and the handler is modelled as the function it is. A request has the
  tool's name and the \<open>query\<close> of its arguments (a string, or missing). The result has the
  text of its one content item, either the JSON of the returned records or a message, and
  \<open>isError\<close>, which is false where the source leaves it out.
\<close>

record tool_request =
  tool_name :: string
  tool_query :: "string option"

datatype tool_text = JsonText "jsobj list" | PlainText string

record tool_result =
  content_text :: tool_text
  isError :: bool

text \<open>
  \<open>withRetry(() => operation)\<close> with the default arguments, on the process: the timers
  and warnings of the retry loop are added to those of the process.
\<close>

definition retried ::
  "(world \<Rightarrow> (js_error + 'a) \<times> world) \<Rightarrow> world \<Rightarrow> (js_error + 'a) \<times> world"
where
  "retried operation w =
     (let r = withRetry operation 3 1000 w
      in (outcome r,
          (final r)\<lparr>warned := warned (final r) @ warnings r,
                    timers := timers (final r) @ waits r\<rparr>))"

definition tool_reply ::
  "string \<Rightarrow> (js_error + jsobj list) \<times> world \<Rightarrow> tool_result \<times> world"
where
  "tool_reply label run =
     (case fst run of
        Inr found \<Rightarrow> (\<lparr>content_text = JsonText found, isError = False\<rparr>, snd run)
      | Inl error \<Rightarrow>
          (\<lparr>content_text =
              PlainText (''Failed to perform '' @ label @ '' search: '' @ message error),
            isError = True\<rparr>,
           snd run))"

definition tool_handler :: "env \<Rightarrow> tool_request \<Rightarrow> world \<Rightarrow> tool_result \<times> world" where
  "tool_handler e request w =
     (let w0 = ensureBrowser w;
          query = js_string (tool_query request)
      in if tool_name request = ''search_google'' then
           tool_reply ''Google'' (retried (performGoogleSearch e query) w0)
         else if tool_name request = ''search_duckduckgo'' then
           tool_reply ''DuckDuckGo'' (retried (performDuckDuckGoSearch e query) w0)
         else if tool_name request = ''search_youtube'' then
           tool_reply ''YouTube'' (retried (performYouTubeSearch e query) w0)
         else if tool_name request = ''search_pubmed'' then
           tool_reply ''PubMed'' (retried (performPubMedSearch e query) w0)
         else
           (\<lparr>content_text = PlainText (''Tool '' @ tool_name request @ '' not found''),
             isError = True\<rparr>,
            w0))"

section \<open>The link rule as the specification words it\<close>





section \<open>Sample pages and environments\<close>

text \<open>The process right after start: nothing launched, an empty store.\<close>

definition fresh_world :: world where
  "fresh_world =
     \<lparr>browser = False, page = False, results = [], shown = [], visited = [],
      clock_reads = 0, uuid_draws = 0, console = [], warned = [], timers = [],
      file_writes = 0, search_results_json = None, uncaught = []\<rparr>"

text \<open>A DuckDuckGo results page with one result container, all parts present.\<close>

definition ddg_page :: document where
  "ddg_page =
     [(''.results_wrapper .web-results .result'',
       [Element ''Isabelle A proof assistant'' [] []
          [(''a.result__a'',
            Element '' Isabelle '' ''https://isabelle.in.tum.de/''
              [(''href'', ''https://isabelle.in.tum.de/'')] []),
           (''.result__snippet'', Element ''A proof assistant'' [] [] [])]])]"

text \<open>A Google results page with one container that has a link but no title element.\<close>

definition google_page :: document where
  "google_page =
     [(''.tF2Cxc'',
       [Element ''isabelle.in.tum.de'' [] []
          [(''.yuRUbf > a'',
            Element [] ''https://isabelle.in.tum.de/''
              [(''href'', ''https://isabelle.in.tum.de/'')] [])]])]"

text \<open>A video container whose title link has an absolute href.\<close>

definition absolute_video :: element where
  "absolute_video =
     Element ''Talk'' [] []
       [(''#video-title'',
         Element ''Talk'' ''https://youtu.be/abc'' [(''href'', ''https://youtu.be/abc'')] [])]"

text \<open>
  Environments: every navigation shows the given page, or the first one fails; every
  write succeeds, or every write fails.
\<close>

definition clock_text :: "nat \<Rightarrow> string" where
  "clock_text k = ''2024-05-01T10:00:0'' @ [hex_digit k] @ ''.000Z''"

definition online :: "document \<Rightarrow> env" where
  "online doc =
     \<lparr>goto_outcome = (\<lambda>k url. Inr doc), now_ISO = clock_text,
      uuidv4 = (\<lambda>k. ''id-'' @ [hex_digit k]), write_error = (\<lambda>k. None)\<rparr>"

definition offline_once :: "document \<Rightarrow> env" where
  "offline_once doc =
     (online doc)\<lparr>goto_outcome :=
        (\<lambda>k url. if k = 0 then Inl (JsError ''Error'' ''net::ERR_INTERNET_DISCONNECTED'')
                 else Inr doc)\<rparr>"

definition readonly_disk :: "document \<Rightarrow> env" where
  "readonly_disk doc =
     (online doc)\<lparr>write_error := (\<lambda>k. Some (JsError ''Error'' ''EACCES: permission denied''))\<rparr>"

text \<open>
  Two operations on a counter, for trying the retry loop: one throws on its first two
  invocations and returns the counter on the third, the other throws on every
  invocation, each time with a longer message.
\<close>

definition flaky_twice :: "nat \<Rightarrow> (js_error + nat) \<times> nat" where
  "flaky_twice n = (if n < 2 then Inl (JsError ''Error'' ''not yet'') else Inr n, Suc n)"

definition always_failing :: "nat \<Rightarrow> (js_error + nat) \<times> nat" where
  "always_failing n = (Inl (JsError ''Error'' (replicate n CHR ''x'')), Suc n)"

text \<open>A video container with a relative link, and a citation with a relative link.\<close>

definition relative_video :: element where
  "relative_video =
     Element ''Talk'' [] []
       [(''#video-title'', Element ''Talk'' [] [(''href'', ''/watch?v=abc'')] [])]"

definition relative_citation :: element where
  "relative_citation =
     Element ''Paper'' [] []
       [(''.docsum-title'', Element ''Paper'' [] [] []),
        (''.docsum-title > a'', Element ''Paper'' [] [(''href'', ''/12345/'')] [])]"

text \<open>Requests for the DuckDuckGo engine, and the record the sample page gives.\<close>

definition ddg_request :: request_body where
  "ddg_request = \<lparr>body_query = Some ''isabelle'', body_engine = Some ''duckduckgo''\<rparr>"

definition ddg_tool_request :: tool_request where
  "ddg_tool_request = \<lparr>tool_name = ''search_duckduckgo'', tool_query = Some ''isabelle''\<rparr>"

definition ddg_raw :: jsobj where
  "ddg_raw =
     [(''title'', ''Isabelle''), (''url'', ''https://isabelle.in.tum.de/''),
      (''snippet'', ''A proof assistant'')]"

definition ddg_record :: "string \<Rightarrow> jsobj" where
  "ddg_record ts =
     [(''type'', ''duckduckgo''), (''title'', ''Isabelle''),
      (''url'', ''https://isabelle.in.tum.de/''), (''snippet'', ''A proof assistant''),
      (''timestamp'', ts)]"

text \<open>A process whose store still holds a record of an earlier request.\<close>

definition used_world :: world where
  "used_world = fresh_world\<lparr>results := [[(''type'', ''youtube'')]]\<rparr>"

section \<open>Predicates for stating the properties\<close>





section \<open>The retry loop\<close>

lemma state_before_Suc:
  "state_before operation (Suc k) s = state_before operation k (snd (operation s))"
  unfolding state_before_def by (simp only: funpow_Suc_right o_apply)

lemma state_before_0: "state_before operation 0 s = s"
  by (simp add: state_before_def)

lemma retry_loop_success:
  "attempt < maxRetries \<Longrightarrow> fst (operation s) = Inr v \<Longrightarrow>
   retry_loop operation maxRetries delay attempt s =
     \<lparr>outcome = Inr v, invocations = 1, waits = [], warnings = [], final = snd (operation s)\<rparr>"
  by (subst retry_loop.simps) simp

lemma retry_loop_retry:
  "attempt + 1 < maxRetries \<Longrightarrow> fst (operation s) = Inl e \<Longrightarrow>
   retry_loop operation maxRetries delay attempt s =
     (let r = retry_loop operation maxRetries delay (attempt + 1) (snd (operation s))
      in r\<lparr>invocations := Suc (invocations r), waits := delay # waits r,
           warnings := (attempt + 1) # warnings r\<rparr>)"
  by (subst retry_loop.simps) simp

lemma retry_loop_last:
  "attempt + 1 = maxRetries \<Longrightarrow> fst (operation s) = Inl e \<Longrightarrow>
   retry_loop operation maxRetries delay attempt s =
     \<lparr>outcome = Inl e, invocations = 1, waits = [], warnings = [], final = snd (operation s)\<rparr>"
  by (subst retry_loop.simps) simp

lemma retry_loop_exhausted:
  "\<not> attempt < maxRetries \<Longrightarrow>
   retry_loop operation maxRetries delay attempt s =
     \<lparr>outcome = Inl (JsError ''Error'' ''Max retries reached''), invocations = 0,
      waits = [], warnings = [], final = s\<rparr>"
  by (subst retry_loop.simps) simp

lemma retry_loop_all_fail:
  "attempt < maxRetries \<Longrightarrow>
   (\<And>k. k < nat (maxRetries - attempt) \<Longrightarrow> isl (fst (operation (state_before operation k s)))) \<Longrightarrow>
   outcome (retry_loop operation maxRetries delay attempt s)
     = fst (operation (state_before operation (nat (maxRetries - attempt) - 1) s)) \<and>
   invocations (retry_loop operation maxRetries delay attempt s) = nat (maxRetries - attempt) \<and>
   waits (retry_loop operation maxRetries delay attempt s)
     = replicate (nat (maxRetries - attempt) - 1) delay \<and>
   final (retry_loop operation maxRetries delay attempt s)
     = state_before operation (nat (maxRetries - attempt)) s"
proof (induction "nat (maxRetries - attempt)" arbitrary: attempt s)
  case 0
  then show ?case by simp
next
  case (Suc n)
  have "isl (fst (operation (state_before operation 0 s)))"
    using Suc.hyps(2) by (intro Suc.prems(2)) simp
  then obtain e where e: "fst (operation s) = Inl e"
    by (auto simp: state_before_0 isl_def)
  show ?case
  proof (cases "attempt + 1 = maxRetries")
    case True
    then have "nat (maxRetries - attempt) = 1" by simp
    with True e show ?thesis
      by (simp add: retry_loop_last state_before_0 state_before_Suc)
  next
    case False
    with Suc.prems(1) have lt: "attempt + 1 < maxRetries" by simp
    have n: "n = nat (maxRetries - (attempt + 1))" using Suc.hyps(2) by simp
    have fails: "\<And>k. k < nat (maxRetries - (attempt + 1)) \<Longrightarrow>
        isl (fst (operation (state_before operation k (snd (operation s)))))"
    proof -
      fix k assume "k < nat (maxRetries - (attempt + 1))"
      then have "Suc k < nat (maxRetries - attempt)" by simp
      from Suc.prems(2)[OF this] show "isl (fst (operation (state_before operation k (snd (operation s)))))"
        by (simp add: state_before_Suc)
    qed
    have m: "nat (maxRetries - attempt) = Suc (nat (maxRetries - (attempt + 1)))"
      using lt by simp
    obtain j where j: "nat (maxRetries - (attempt + 1)) = Suc j"
      using lt by (cases "nat (maxRetries - (attempt + 1))") auto
    from Suc.hyps(1)[OF n lt fails] lt e show ?thesis
      by (simp add: retry_loop_retry Let_def m j state_before_Suc)
  qed
qed

lemma retry_loop_value_from_invocation:
  "outcome (retry_loop operation maxRetries delay attempt s) = Inr v \<Longrightarrow>
   \<exists>k < invocations (retry_loop operation maxRetries delay attempt s).
      fst (operation (state_before operation k s)) = Inr v"
proof (induction operation maxRetries delay attempt s rule: retry_loop.induct)
  case (1 operation maxRetries delay attempt s)
  show ?case
  proof (cases "attempt < maxRetries")
    case False
    with "1.prems" show ?thesis by (simp add: retry_loop_exhausted)
  next
    case True
    show ?thesis
    proof (cases "fst (operation s)")
      case (Inr w)
      with True "1.prems" show ?thesis
        by (auto simp: retry_loop_success state_before_0)
    next
      case (Inl e)
      show ?thesis
      proof (cases "attempt + 1 = maxRetries")
        case True
        with Inl "1.prems" show ?thesis by (simp add: retry_loop_last)
      next
        case False
        with True have lt: "attempt + 1 < maxRetries" by simp
        from "1.prems" lt Inl
        have "outcome (retry_loop operation maxRetries delay (attempt + 1) (snd (operation s))) = Inr v"
          by (simp add: retry_loop_retry Let_def)
        from "1.IH"[OF True Inl False this] obtain k where
          "k < invocations (retry_loop operation maxRetries delay (attempt + 1) (snd (operation s)))"
          "fst (operation (state_before operation k (snd (operation s)))) = Inr v" by blast
        then have "Suc k < invocations (retry_loop operation maxRetries delay attempt s) \<and>
          fst (operation (state_before operation (Suc k) s)) = Inr v"
          using lt Inl by (simp add: retry_loop_retry Let_def state_before_Suc)
        then show ?thesis by blast
      qed
    qed
  qed
qed


text \<open>
  Claim C1. With \<open>maxRetries = 3\<close>, an operation that throws on its first two
  invocations and returns \<open>v\<close> on the third makes \<open>withRetry\<close> return \<open>v\<close> after exactly
  three invocations (with two waits of \<open>delay\<close> and the warnings 1 and 2). For every
  positive \<open>maxRetries\<close> (3 among them), an operation that throws on each of its first
  \<open>maxRetries\<close> invocations is invoked exactly \<open>maxRetries\<close> times, and \<open>withRetry\<close>
  throws the error of the last of these invocations.
\<close>

theorem withRetry_three_attempts:
  "(operation s0 = (Inl e1, s1) \<and> operation s1 = (Inl e2, s2) \<and> operation s2 = (Inr v, s3) \<longrightarrow>
      withRetry operation 3 delay s0 =
        \<lparr>outcome = Inr v, invocations = 3, waits = [delay, delay], warnings = [1, 2],
         final = s3\<rparr>) \<and>
   (0 < maxRetries \<and>
    (\<forall>k. k < nat maxRetries \<longrightarrow> isl (fst (failing (state_before failing k t0)))) \<longrightarrow>
      outcome (withRetry failing maxRetries delay' t0)
        = fst (failing (state_before failing (nat maxRetries - 1) t0)) \<and>
      isl (outcome (withRetry failing maxRetries delay' t0)) \<and>
      invocations (withRetry failing maxRetries delay' t0) = nat maxRetries)"
proof (intro conjI impI)
  assume a: "operation s0 = (Inl e1, s1) \<and> operation s1 = (Inl e2, s2) \<and> operation s2 = (Inr v, s3)"
  have third: "retry_loop operation 3 delay 2 s2 =
      \<lparr>outcome = Inr v, invocations = 1, waits = [], warnings = [], final = s3\<rparr>"
    using a by (simp add: retry_loop_success)
  have second: "retry_loop operation 3 delay 1 s1 =
      \<lparr>outcome = Inr v, invocations = 2, waits = [delay], warnings = [2], final = s3\<rparr>"
    using a third retry_loop_retry[of 1 3 operation s1 e2 delay] by simp
  show "withRetry operation 3 delay s0 =
        \<lparr>outcome = Inr v, invocations = 3, waits = [delay, delay], warnings = [1, 2],
         final = s3\<rparr>"
    using a second retry_loop_retry[of 0 3 operation s0 e1 delay]
    by (simp add: withRetry_def)
next
  assume b: "0 < maxRetries \<and>
    (\<forall>k. k < nat maxRetries \<longrightarrow> isl (fst (failing (state_before failing k t0))))"
  then have pos: "0 < maxRetries" by simp
  have all:
    "outcome (retry_loop failing maxRetries delay' 0 t0)
       = fst (failing (state_before failing (nat maxRetries - 1) t0)) \<and>
     invocations (retry_loop failing maxRetries delay' 0 t0) = nat maxRetries"
    using retry_loop_all_fail[of 0 maxRetries failing t0 delay'] b by simp
  show "outcome (withRetry failing maxRetries delay' t0)
        = fst (failing (state_before failing (nat maxRetries - 1) t0))"
    using all by (simp add: withRetry_def)
  show "invocations (withRetry failing maxRetries delay' t0) = nat maxRetries"
    using all by (simp add: withRetry_def)
  have "nat maxRetries - 1 < nat maxRetries" using pos by simp
  with b have "isl (fst (failing (state_before failing (nat maxRetries - 1) t0)))" by blast
  then show "isl (outcome (withRetry failing maxRetries delay' t0))"
    using all by (simp add: withRetry_def)
qed

theorem withRetry_three_attempts_witness:
  "withRetry flaky_twice 3 1000 0 =
     \<lparr>outcome = Inr 2, invocations = 3, waits = [1000, 1000], warnings = [1, 2], final = 3\<rparr> \<and>
   outcome (withRetry always_failing 3 1000 0) = Inl (JsError ''Error'' ''xx'') \<and>
   invocations (withRetry always_failing 3 1000 0) = 3"
proof -
  have less3: "\<And>k::nat. k < 3 \<longleftrightarrow> k = 0 \<or> k = 1 \<or> k = 2" by auto
  have sb: "state_before always_failing 0 0 = 0" "state_before always_failing 1 0 = 1"
    "state_before always_failing 2 0 = 2"
    by (simp_all add: state_before_def always_failing_def eval_nat_numeral)
  have hyp: "\<forall>k. k < nat 3 \<longrightarrow> isl (fst (always_failing (state_before always_failing k 0)))"
    by (simp add: always_failing_def)
  show ?thesis
    using withRetry_three_attempts[where operation = flaky_twice and ?s0.0 = 0
        and ?e1.0 = "JsError ''Error'' ''not yet''" and ?s1.0 = 1
        and ?e2.0 = "JsError ''Error'' ''not yet''" and ?s2.0 = 2 and v = 2 and ?s3.0 = 3
        and maxRetries = 3 and failing = always_failing and ?t0.0 = 0
        and delay = 1000 and delay' = 1000] hyp sb
    by (simp add: flaky_twice_def always_failing_def eval_nat_numeral)
qed

text \<open>
  Claim C9. With \<open>maxRetries = 0\<close> the operation is never invoked and \<open>withRetry\<close>
  throws the error "Max retries reached". For every \<open>maxRetries\<close>: a value that
  \<open>withRetry\<close> returns is the value that one of the invocations it made returned; it
  returns nothing else.
\<close>

theorem withRetry_never_returns_nothing:
  "withRetry operation 0 delay s =
     \<lparr>outcome = Inl (JsError ''Error'' ''Max retries reached''), invocations = 0,
      waits = [], warnings = [], final = s\<rparr> \<and>
   (outcome (withRetry operation maxRetries delay s) = Inr v \<longrightarrow>
      (\<exists>k. k < invocations (withRetry operation maxRetries delay s) \<and>
           fst (operation (state_before operation k s)) = Inr v))"
  using retry_loop_value_from_invocation[of operation maxRetries delay 0 s v]
  by (auto simp: withRetry_def retry_loop_exhausted)

theorem withRetry_never_returns_nothing_witness:
  "outcome (withRetry flaky_twice 3 1000 0) = Inr 2 \<and>
   (\<exists>k. k < invocations (withRetry flaky_twice 3 1000 0) \<and>
        fst (flaky_twice (state_before flaky_twice k 0)) = Inr 2)"
proof -
  have run: "outcome (withRetry flaky_twice 3 1000 0) = Inr 2"
    by (simp add: withRetry_def retry_loop.simps flaky_twice_def)
  from withRetry_never_returns_nothing[of flaky_twice 1000 0 3 2] run show ?thesis by blast
qed

section \<open>Extraction\<close>

lemmas js_defs = falsy_def or_empty_def js_string_def trim_def is_space_def
  querySelector_def getAttribute_def querySelectorAll_def get_prop_def
lemmas item_defs = google_item_def duckduckgo_item_def youtube_item_def pubmed_item_def
lemmas extractor_defs = google_extractor_def duckduckgo_extractor_def youtube_extractor_def
  pubmed_extractor_def
lemmas uri_defs = encodeURIComponent_def uri_unreserved_def percent_encode_def hex_digit_def
lemmas pipeline_defs = performGoogleSearch_def performDuckDuckGoSearch_def
  performYouTubeSearch_def performPubMedSearch_def ensureBrowser_def safePageNavigation_def
  add_stamped_def addResult_def stamped_def spread_def
lemmas sample_defs = fresh_world_def used_world_def ddg_page_def google_page_def
  absolute_video_def relative_video_def relative_citation_def online_def offline_once_def
  readonly_disk_def clock_text_def ddg_request_def ddg_tool_request_def ddg_raw_def
  ddg_record_def
lemmas http_defs = post_search_def search_handler_def search_switch_def writeFile_callback_def
  res_json_def res_status_def Let_def
lemmas tool_defs = tool_handler_def tool_reply_def retried_def withRetry_def

text \<open>
  The three extractors that return give one record for each matched container, and a
  container without the title element gives the empty title.
\<close>

lemma extractors_keep_every_container:
  "length (duckduckgo_extractor doc)
     = length (querySelectorAll doc ''.results_wrapper .web-results .result'')"
  "length (youtube_extractor doc)
     = length (querySelectorAll doc
         ''#contents ytd-item-section-renderer > div > ytd-video-renderer'')"
  "length (pubmed_extractor doc)
     = length (querySelectorAll doc ''.pubmed-citation-list > .pubmed-citation'')"
  by (simp_all add: extractor_defs)

lemma missing_title_is_empty:
  "querySelector el ''a.result__a'' = None \<Longrightarrow> get_prop (duckduckgo_item el) ''title'' = Some []"
  "querySelector el ''#video-title'' = None \<Longrightarrow> get_prop (youtube_item el) ''title'' = Some []"
  "querySelector el ''.docsum-title'' = None \<Longrightarrow> get_prop (pubmed_item el) ''title'' = Some []"
  by (simp_all add: item_defs get_prop_def or_empty_def falsy_def Let_def)

lemma sample_query_encoded: "encodeURIComponent ''isabelle'' = ''isabelle''"
  by (simp add: uri_defs)

lemma ddg_page_extracted: "duckduckgo_extractor ddg_page = [ddg_raw]"
  by (simp add: js_defs item_defs extractor_defs ddg_page_def ddg_raw_def)

lemma ddg_raw_stamped: "stamped ''duckduckgo'' ts ddg_raw = ddg_record ts"
  by (simp add: stamped_def spread_def ddg_raw_def ddg_record_def)

lemmas run_defs = performGoogleSearch_def performDuckDuckGoSearch_def ensureBrowser_def
  safePageNavigation_def add_stamped_def addResult_def
lemmas run_sample_defs = fresh_world_def used_world_def online_def offline_once_def
  readonly_disk_def clock_text_def hex_digit_def ddg_request_def ddg_tool_request_def
lemmas run_evals = sample_query_encoded ddg_page_extracted ddg_raw_stamped

text \<open>
  Claim C8 (code defect). On a Google page with one matched container that has a link
  and no title element, the callback builds the record with the empty title, and then
  the extraction throws a ReferenceError instead of returning it: the run fails after
  its navigation and appends nothing.
\<close>

theorem google_extraction_throws:
  "map google_item (querySelectorAll google_page ''.tF2Cxc'')
     = [[(''title'', []), (''url'', ''https://isabelle.in.tum.de/''), (''snippet'', [])]] \<and>
   google_extractor google_page
     = Inl (JsError ''ReferenceError'' ''searchResults is not defined'') \<and>
   fst (performGoogleSearch (online google_page) ''isabelle'' fresh_world)
     = Inl (JsError ''ReferenceError'' ''searchResults is not defined'') \<and>
   visited (snd (performGoogleSearch (online google_page) ''isabelle'' fresh_world))
     = [''https://www.google.com/search?q=isabelle''] \<and>
   results (snd (performGoogleSearch (online google_page) ''isabelle'' fresh_world)) = []"
  by (simp add: js_defs item_defs extractor_defs uri_defs pipeline_defs sample_defs)




section \<open>What a pipeline run appends and what it returns\<close>






























section \<open>The HTTP endpoint\<close>

lemma fresh_reply:
  "snd (res_json body (res_status code \<lparr>statusCode = 200, sent = None\<rparr>))
     = \<lparr>statusCode = code, sent = Some (code, body)\<rparr>"
  "snd (res_json body \<lparr>statusCode = 200, sent = None\<rparr>)
     = \<lparr>statusCode = 200, sent = Some (200, body)\<rparr>"
  by (simp_all add: res_json_def res_status_def)

lemma handler_rejects:
  "falsy (body_query body) \<or> falsy (body_engine body) \<Longrightarrow>
   search_handler e body w =
     (\<lparr>statusCode = 400, sent = Some (400, ErrorBody ''Query and engine are required'')\<rparr>,
      None, w)"
  by (simp add: search_handler_def Let_def fresh_reply)

lemma handler_unknown:
  "\<not> falsy (body_query body) \<Longrightarrow> \<not> falsy (body_engine body) \<Longrightarrow>
   search_switch e (js_string (body_engine body)) (js_string (body_query body))
     (w\<lparr>results := []\<rparr>) = None \<Longrightarrow>
   search_handler e body w =
     (\<lparr>statusCode = 400, sent = Some (400, ErrorBody ''Invalid search engine'')\<rparr>,
      None, w\<lparr>results := []\<rparr>)"
  by (simp add: search_handler_def Let_def fresh_reply)

lemma handler_failed:
  "\<not> falsy (body_query body) \<Longrightarrow> \<not> falsy (body_engine body) \<Longrightarrow>
   search_switch e (js_string (body_engine body)) (js_string (body_query body))
     (w\<lparr>results := []\<rparr>) = Some (Inl error, w1) \<Longrightarrow>
   search_handler e body w =
     (\<lparr>statusCode = 500, sent = Some (500, FailureBody ''Search failed'' (message error))\<rparr>,
      None, w1\<lparr>console := console w1 @ [SearchFailed error]\<rparr>)"
  by (simp add: search_handler_def Let_def fresh_reply)

lemma handler_succeeded:
  "\<not> falsy (body_query body) \<Longrightarrow> \<not> falsy (body_engine body) \<Longrightarrow>
   search_switch e (js_string (body_engine body)) (js_string (body_query body))
     (w\<lparr>results := []\<rparr>) = Some (Inr found, w1) \<Longrightarrow>
   search_handler e body w =
     (\<lparr>statusCode = 200,
        sent = Some (200, SnapshotBody (uuidv4 e (uuid_draws w1)) (js_string (body_query body))
                            (js_string (body_engine body)) (results w1))\<rparr>,
      Some (SnapshotBody (uuidv4 e (uuid_draws w1)) (js_string (body_query body))
              (js_string (body_engine body)) (results w1)),
      w1\<lparr>uuid_draws := Suc (uuid_draws w1)\<rparr>)"
  by (simp add: search_handler_def Let_def fresh_reply)

lemma switch_None:
  "search_switch e engine query w = None \<longleftrightarrow>
     engine \<noteq> ''google'' \<and> engine \<noteq> ''duckduckgo'' \<and> engine \<noteq> ''youtube'' \<and> engine \<noteq> ''pubmed''"
  unfolding search_switch_def by (auto split: if_splits)

lemma callback_keeps_sent:
  "sent res = Some x \<Longrightarrow> sent (fst (writeFile_callback err data res w)) = Some x"
  by (simp add: writeFile_callback_def res_json_def res_status_def Let_def split: option.splits)

lemma post_search_sent:
  "sent (fst (post_search e body w)) = sent (fst (search_handler e body w))"
proof (cases "falsy (body_query body) \<or> falsy (body_engine body)")
  case True
  then show ?thesis by (simp add: post_search_def Let_def handler_rejects)
next
  case False
  then have q: "\<not> falsy (body_query body)" and en: "\<not> falsy (body_engine body)" by simp_all
  show ?thesis
  proof (cases "search_switch e (js_string (body_engine body)) (js_string (body_query body))
      (w\<lparr>results := []\<rparr>)")
    case None
    then show ?thesis by (simp add: post_search_def Let_def handler_unknown[OF q en])
  next
    case (Some run)
    obtain out w1 where run: "run = (out, w1)" by (cases run)
    show ?thesis
    proof (cases out)
      case (Inl error)
      with Some run show ?thesis by (simp add: post_search_def Let_def handler_failed[OF q en])
    next
      case (Inr found)
      with Some run show ?thesis
        by (simp add: post_search_def Let_def handler_succeeded[OF q en] callback_keeps_sent)
    qed
  qed
qed

lemma handler_sent_cases:
  "sent (fst (search_handler e body w)) =
     (if falsy (body_query body) \<or> falsy (body_engine body)
      then Some (400, ErrorBody ''Query and engine are required'')
      else case search_switch e (js_string (body_engine body)) (js_string (body_query body))
                  (w\<lparr>results := []\<rparr>) of
             None \<Rightarrow> Some (400, ErrorBody ''Invalid search engine'')
           | Some run \<Rightarrow>
               (case fst run of
                  Inl error \<Rightarrow> Some (500, FailureBody ''Search failed'' (message error))
                | Inr found \<Rightarrow>
                    Some (200, SnapshotBody (uuidv4 e (uuid_draws (snd run)))
                                 (js_string (body_query body)) (js_string (body_engine body))
                                 (results (snd run)))))"
  by (simp add: search_handler_def Let_def fresh_reply split: option.splits sum.splits)

text \<open>
  Claim C7, as stated, fails: a request whose \<open>query\<close> is present and is the empty
  string gets status 400 with "Query and engine are required", and no navigation is
  attempted.
\<close>

theorem empty_query_rejected:
  "body_query \<lparr>body_query = Some [], body_engine = Some ''duckduckgo''\<rparr> = Some [] \<and>
   sent (fst (post_search (online ddg_page)
                \<lparr>body_query = Some [], body_engine = Some ''duckduckgo''\<rparr> fresh_world))
     = Some (400, ErrorBody ''Query and engine are required'') \<and>
   visited (snd (post_search (online ddg_page)
                   \<lparr>body_query = Some [], body_engine = Some ''duckduckgo''\<rparr> fresh_world)) = []"
  by (simp add: js_defs sample_defs http_defs)

text \<open>
  Claim C7, amended. The endpoint answers 400 with "Query and engine are required"
  exactly when \<open>query\<close> or \<open>engine\<close> is missing or is the empty string, and 400 with
  "Invalid search engine" exactly when both are non-empty and \<open>engine\<close> is none of the
  four names. A request rejected for its \<open>query\<close> or \<open>engine\<close> leaves the process as
  it was: it reaches no pipeline and no navigation is attempted.
\<close>

theorem validation_responses:
  "(sent (fst (post_search e body w)) = Some (400, ErrorBody ''Query and engine are required'')
      \<longleftrightarrow> falsy (body_query body) \<or> falsy (body_engine body)) \<and>
   (sent (fst (post_search e body w)) = Some (400, ErrorBody ''Invalid search engine'')
      \<longleftrightarrow> \<not> falsy (body_query body) \<and> \<not> falsy (body_engine body) \<and>
          js_string (body_engine body) \<noteq> ''google'' \<and>
          js_string (body_engine body) \<noteq> ''duckduckgo'' \<and>
          js_string (body_engine body) \<noteq> ''youtube'' \<and>
          js_string (body_engine body) \<noteq> ''pubmed'') \<and>
   (falsy (body_query body) \<or> falsy (body_engine body) \<longrightarrow> snd (post_search e body w) = w)"
proof (intro conjI)
  show "sent (fst (post_search e body w)) = Some (400, ErrorBody ''Query and engine are required'')
      \<longleftrightarrow> falsy (body_query body) \<or> falsy (body_engine body)"
    by (simp add: post_search_sent handler_sent_cases split: option.splits sum.splits)
  show "sent (fst (post_search e body w)) = Some (400, ErrorBody ''Invalid search engine'')
      \<longleftrightarrow> \<not> falsy (body_query body) \<and> \<not> falsy (body_engine body) \<and>
          js_string (body_engine body) \<noteq> ''google'' \<and>
          js_string (body_engine body) \<noteq> ''duckduckgo'' \<and>
          js_string (body_engine body) \<noteq> ''youtube'' \<and>
          js_string (body_engine body) \<noteq> ''pubmed''"
  proof -
    have "sent (fst (search_handler e body w)) = Some (400, ErrorBody ''Invalid search engine'')
      \<longleftrightarrow> \<not> falsy (body_query body) \<and> \<not> falsy (body_engine body) \<and>
          search_switch e (js_string (body_engine body)) (js_string (body_query body))
            (w\<lparr>results := []\<rparr>) = None"
      by (simp add: handler_sent_cases split: option.splits sum.splits)
    then show ?thesis by (simp only: post_search_sent switch_None)
  qed
  show "falsy (body_query body) \<or> falsy (body_engine body) \<longrightarrow> snd (post_search e body w) = w"
    by (simp add: post_search_def Let_def handler_rejects)
qed

theorem validation_responses_witness:
  "sent (fst (post_search (online ddg_page)
                \<lparr>body_query = None, body_engine = Some ''google''\<rparr> used_world))
     = Some (400, ErrorBody ''Query and engine are required'') \<and>
   snd (post_search (online ddg_page)
          \<lparr>body_query = None, body_engine = Some ''google''\<rparr> used_world) = used_world \<and>
   sent (fst (post_search (online ddg_page)
                \<lparr>body_query = Some ''isabelle'', body_engine = Some ''bing''\<rparr> used_world))
     = Some (400, ErrorBody ''Invalid search engine'')"
  using validation_responses[of "online ddg_page"
          "\<lparr>body_query = None, body_engine = Some ''google''\<rparr>" used_world]
        validation_responses[of "online ddg_page"
          "\<lparr>body_query = Some ''isabelle'', body_engine = Some ''bing''\<rparr>" used_world]
  by (simp add: falsy_def js_string_def)

text \<open>
  Claim C10, as stated, fails: with the \<open>query\<close> present as the empty string and the
  unregistered engine "bing", the request is answered 400 by the first check and the
  record of the earlier request is still in the store.
\<close>

theorem empty_query_keeps_store:
  "sent (fst (post_search (online ddg_page)
                \<lparr>body_query = Some [], body_engine = Some ''bing''\<rparr> used_world))
     = Some (400, ErrorBody ''Query and engine are required'') \<and>
   results (snd (post_search (online ddg_page)
                   \<lparr>body_query = Some [], body_engine = Some ''bing''\<rparr> used_world))
     = [[(''type'', ''youtube'')]]"
  by (simp add: js_defs sample_defs http_defs)

text \<open>
  Claim C10, amended. When \<open>query\<close> and \<open>engine\<close> are both present and non-empty and
  \<open>engine\<close> is none of the four names, the endpoint answers 400 with "Invalid search
  engine" and the only change to the process is that the store is empty.
\<close>

theorem unknown_engine_clears_store:
  "\<not> falsy (body_query body) \<Longrightarrow> \<not> falsy (body_engine body) \<Longrightarrow>
   js_string (body_engine body) \<noteq> ''google'' \<Longrightarrow>
   js_string (body_engine body) \<noteq> ''duckduckgo'' \<Longrightarrow>
   js_string (body_engine body) \<noteq> ''youtube'' \<Longrightarrow>
   js_string (body_engine body) \<noteq> ''pubmed'' \<Longrightarrow>
   sent (fst (post_search e body w)) = Some (400, ErrorBody ''Invalid search engine'') \<and>
   snd (post_search e body w) = w\<lparr>results := []\<rparr> \<and>
   results (snd (post_search e body w)) = []"
proof -
  assume q: "\<not> falsy (body_query body)" and en: "\<not> falsy (body_engine body)"
    and "js_string (body_engine body) \<noteq> ''google''"
    "js_string (body_engine body) \<noteq> ''duckduckgo''"
    "js_string (body_engine body) \<noteq> ''youtube''"
    "js_string (body_engine body) \<noteq> ''pubmed''"
  then have "search_switch e (js_string (body_engine body)) (js_string (body_query body))
     (w\<lparr>results := []\<rparr>) = None"
    by (simp add: switch_None)
  from handler_unknown[OF q en this] show ?thesis
    by (simp add: post_search_def Let_def)
qed

theorem unknown_engine_clears_store_witness:
  "results used_world = [[(''type'', ''youtube'')]] \<and>
   sent (fst (post_search (online ddg_page)
                \<lparr>body_query = Some ''isabelle'', body_engine = Some ''bing''\<rparr> used_world))
     = Some (400, ErrorBody ''Invalid search engine'') \<and>
   results (snd (post_search (online ddg_page)
                   \<lparr>body_query = Some ''isabelle'', body_engine = Some ''bing''\<rparr> used_world)) = []"
  using unknown_engine_clears_store[of
          "\<lparr>body_query = Some ''isabelle'', body_engine = Some ''bing''\<rparr>" "online ddg_page"
          used_world]
  by (simp add: falsy_def js_string_def used_world_def fresh_world_def)

section \<open>Where the two entry points differ\<close>

text \<open>
  Claim C2 (code defect). The first navigation fails and every later one would
  succeed. The HTTP endpoint navigates once, waits for nothing and answers 500 with the
  navigation error; the tool handler, on the same request, navigates a second time after
  one wait of 1000 ms and returns the records.
\<close>

theorem http_search_not_retried:
  "sent (fst (post_search (offline_once ddg_page) ddg_request fresh_world))
     = Some (500, FailureBody ''Search failed'' ''net::ERR_INTERNET_DISCONNECTED'') \<and>
   visited (snd (post_search (offline_once ddg_page) ddg_request fresh_world))
     = [''https://duckduckgo.com/?q=isabelle''] \<and>
   timers (snd (post_search (offline_once ddg_page) ddg_request fresh_world)) = [] \<and>
   fst (tool_handler (offline_once ddg_page) ddg_tool_request fresh_world)
     = \<lparr>content_text = JsonText [ddg_raw], isError = False\<rparr> \<and>
   visited (snd (tool_handler (offline_once ddg_page) ddg_tool_request fresh_world))
     = [''https://duckduckgo.com/?q=isabelle'', ''https://duckduckgo.com/?q=isabelle''] \<and>
   timers (snd (tool_handler (offline_once ddg_page) ddg_tool_request fresh_world)) = [1000]"
  by (simp add: run_defs run_sample_defs run_evals http_defs tool_defs retry_loop.simps
      js_string_def falsy_def)

text \<open>
  Claim C3 (code defect). The run succeeds and the write of the snapshot fails. The
  handler has sent status 200 with the records before the callback of the write runs, and
  that is what the client has. The callback logs the failure and then also sets status
  500 and sends an error body on the response that was already sent, which throws out of
  the callback with nothing to catch it: the failure is not only logged.
\<close>

theorem write_failure_second_response:
  "sent (fst (search_handler (readonly_disk ddg_page) ddg_request fresh_world))
     = Some (200, SnapshotBody ''id-0'' ''isabelle'' ''duckduckgo''
                    [ddg_record ''2024-05-01T10:00:00.000Z'']) \<and>
   sent (fst (post_search (readonly_disk ddg_page) ddg_request fresh_world))
     = Some (200, SnapshotBody ''id-0'' ''isabelle'' ''duckduckgo''
                    [ddg_record ''2024-05-01T10:00:00.000Z'']) \<and>
   console (snd (post_search (readonly_disk ddg_page) ddg_request fresh_world))
     = [WriteFailed (JsError ''Error'' ''EACCES: permission denied'')] \<and>
   statusCode (fst (post_search (readonly_disk ddg_page) ddg_request fresh_world)) = 500 \<and>
   uncaught (snd (post_search (readonly_disk ddg_page) ddg_request fresh_world))
     = [JsError ''Error'' ''Cannot set headers after they are sent to the client'']"
  by (simp add: run_defs run_sample_defs run_evals http_defs js_string_def falsy_def)

text \<open>
  Claim C6 (code defect). A tool request on a process whose store holds a record of an
  earlier request leaves that record in the store and appends after it; the HTTP endpoint,
  on the same process, empties the store first.
\<close>

theorem tool_handler_keeps_store:
  "results (snd (tool_handler (online ddg_page) ddg_tool_request used_world))
     = [[(''type'', ''youtube'')], ddg_record ''2024-05-01T10:00:00.000Z''] \<and>
   results (snd (post_search (online ddg_page) ddg_request used_world))
     = [ddg_record ''2024-05-01T10:00:00.000Z'']"
  by (simp add: run_defs run_sample_defs run_evals http_defs tool_defs retry_loop.simps
      js_string_def falsy_def)

end
